theory Spec2Isabelle
  imports Complex_Main "HOL-Library.Word" "HOL-Library.AList" "HOL-Library.Sublist"
begin

section \<open>The world the commands run in\<close>

text \<open>
  The repository is a set of command-style operations around a local key store
  (\<open>utils.ts\<close>: \<open>getOrCreateKeypair\<close>, \<open>getSPLBalance\<close>), a listing of that store
  (\<open>list-accounts.ts\<close>) and three trading commands (\<open>buy-token.ts\<close>,
  \<open>sell-token.ts\<close>, \<open>create-token.ts\<close>). Everything the code does beyond computing a
  value is explicit here: the file system, the random source and the calls made to the
  trading SDK are fields of \<open>world\<close>; a JavaScript exception is the \<open>Inl\<close> branch of a
  result; a \<open>try\<close>/\<open>catch\<close> is \<open>tryCatch\<close>.

  The Node and Solana libraries are not part of the repository. The file system is modelled
  concretely (POSIX paths as lists of components; the world says whether, and with which
  error, writing fails). JSON, typed arrays, ed25519 and base58 are parameters, collected
  in the record \<open>lib\<close>. Numbers are IEEE 754 doubles, with the rounding of every
  operation. What the code writes to the console is not modelled.
\<close>

type_synonym byte = "8 word"
type_synonym path = "string list"
type_synonym pubkey = "byte list"

datatype error =
    ENOENT | ENOTDIR | EISDIR | EEXIST | EROFS | EACCES
  | SyntaxError
  | RangeError
  | BadSecretKeySize
  | InvalidSecretKey
  | MissingRpcUrl
  | InvalidEndpoint
  | InvalidPublicKeyInput
  | RpcError string
  | SdkError string

datatype node = File string | Dir

record Keypair =
  publicKey :: pubkey
  secretKey :: "byte list"

datatype sdk_call =
    Buy Keypair pubkey int int
  | Sell Keypair pubkey int int
  | CreateAndBuy Keypair Keypair string string string "string option" int

text \<open>
  \<open>write_error\<close> is the error with which every attempt to create a directory or to
  write a file fails (a folder without write permission, a read-only file system), and
  \<open>None\<close> where writing succeeds.
\<close>

record world =
  nodes :: "(path \<times> node) list"
  write_error :: "error option"
  drawn :: nat
  sdk_log :: "sdk_call list"

subsection \<open>JavaScript numbers\<close>

text \<open>
  A number is a double: a rational of 53 significant bits (exponents from \<open>-1074\<close> to
  \<open>971\<close>), an infinity or NaN. The two zeros are one value here: the code never divides
  by a zero and never prints one, which is where they differ. \<open>fl q\<close> is the double
  nearest to \<open>q\<close>, ties to the even significand, and an infinity where the rounded
  value reaches \<open>pow2 1024\<close>; every arithmetic operation is the exact one followed by
  \<open>fl\<close>.
\<close>

datatype jsnum = Num rat | PosInfinity | NegInfinity | NaN

definition pow2 :: "int \<Rightarrow> rat" where
  "pow2 k = (if 0 \<le> k then 2 ^ nat k else 1 / 2 ^ nat (- k))"

definition roundEven :: "rat \<Rightarrow> int" where
  "roundEven q =
     (let f = \<lfloor>q\<rfloor>; r = q - of_int f
      in if r < 1 / 2 then f else if 1 / 2 < r then f + 1 else if even f then f else f + 1)"

text \<open>
  The exponent \<open>e\<close> of the last bit of a positive \<open>q\<close>: the one with
  \<open>pow2 52 \<le> q / pow2 e\<close> and \<open>q / pow2 e < pow2 53\<close>, kept between \<open>-1074\<close>
  (subnormal numbers) and \<open>971\<close>.
\<close>

function ulpUp :: "rat \<Rightarrow> int \<Rightarrow> int" where
  "ulpUp q e = (if pow2 (e + 53) \<le> q \<and> e < 971 then ulpUp q (e + 1) else e)"
  by pat_completeness auto
termination
  by (relation "measure (\<lambda>(q, e). nat (971 - e))") auto

function ulpDown :: "rat \<Rightarrow> int \<Rightarrow> int" where
  "ulpDown q e = (if q < pow2 (e + 52) \<and> - 1074 < e then ulpDown q (e - 1) else e)"
  by pat_completeness auto
termination
  by (relation "measure (\<lambda>(q, e). nat (e + 1074))") auto

definition ulpExp :: "rat \<Rightarrow> int" where
  "ulpExp q = (if pow2 53 \<le> q then ulpUp q 0 else ulpDown q 0)"

definition fl :: "rat \<Rightarrow> jsnum" where
  "fl q =
     (let e = ulpExp \<bar>q\<bar>; m = roundEven (\<bar>q\<bar> / pow2 e)
      in if pow2 1024 \<le> of_int m * pow2 e then (if 0 < q then PosInfinity else NegInfinity)
         else Num (sgn q * of_int m * pow2 e))"

definition infinity :: "bool \<Rightarrow> jsnum" where
  "infinity positive = (if positive then PosInfinity else NegInfinity)"

fun jneg :: "jsnum \<Rightarrow> jsnum" where
  "jneg (Num a) = Num (- a)"
| "jneg PosInfinity = NegInfinity"
| "jneg NegInfinity = PosInfinity"
| "jneg NaN = NaN"

fun jmul :: "jsnum \<Rightarrow> jsnum \<Rightarrow> jsnum" where
  "jmul (Num a) (Num b) = fl (a * b)"
| "jmul NaN y = NaN"
| "jmul x NaN = NaN"
| "jmul (Num a) y = (if a = 0 then NaN else infinity ((0 < a) = (y = PosInfinity)))"
| "jmul x (Num b) = (if b = 0 then NaN else infinity ((0 < b) = (x = PosInfinity)))"
| "jmul x y = infinity (x = y)"

fun jadd :: "jsnum \<Rightarrow> jsnum \<Rightarrow> jsnum" where
  "jadd (Num a) (Num b) = fl (a + b)"
| "jadd NaN y = NaN"
| "jadd x NaN = NaN"
| "jadd (Num a) y = y"
| "jadd x (Num b) = x"
| "jadd x y = (if x = y then x else NaN)"

definition jsub :: "jsnum \<Rightarrow> jsnum \<Rightarrow> jsnum" where
  "jsub x y = jadd x (jneg y)"

fun jdiv :: "jsnum \<Rightarrow> jsnum \<Rightarrow> jsnum" where
  "jdiv (Num a) (Num b) =
     (if b = 0 then (if a = 0 then NaN else infinity (0 < a)) else fl (a / b))"
| "jdiv NaN y = NaN"
| "jdiv x NaN = NaN"
| "jdiv (Num a) y = Num 0"
| "jdiv x (Num b) = infinity ((0 \<le> b) = (x = PosInfinity))"
| "jdiv x y = NaN"

text \<open>\<open>x < y\<close>, false whenever one side is NaN.\<close>

fun jlt :: "jsnum \<Rightarrow> jsnum \<Rightarrow> bool" where
  "jlt (Num a) (Num b) = (a < b)"
| "jlt NaN y = False"
| "jlt x NaN = False"
| "jlt x PosInfinity = (x \<noteq> PosInfinity)"
| "jlt NegInfinity y = (y \<noteq> NegInfinity)"
| "jlt x y = False"

definition Math_min :: "jsnum \<Rightarrow> jsnum \<Rightarrow> jsnum" where
  "Math_min x y = (if x = NaN \<or> y = NaN then NaN else if jlt y x then y else x)"

text \<open>The numbers that count as false in \<open>!x\<close> and \<open>x || y\<close>.\<close>

definition falsy :: "jsnum \<Rightarrow> bool" where
  "falsy x = (x = Num 0 \<or> x = NaN)"

text \<open>\<open>BigInt(x)\<close> on a number throws a RangeError unless \<open>x\<close> is an integer.\<close>

fun BigInt :: "jsnum \<Rightarrow> error + int" where
  "BigInt (Num q) = (if q = of_int \<lfloor>q\<rfloor> then Inr \<lfloor>q\<rfloor> else Inl RangeError)"
| "BigInt x = Inl RangeError"

definition LAMPORTS_PER_SOL :: jsnum where
  "LAMPORTS_PER_SOL = Num 1000000000"

text \<open>\<open>x || 0\<close> on a balance: \<open>null\<close>, \<open>0\<close> and NaN give \<open>0\<close>.\<close>

definition orZero :: "jsnum option \<Rightarrow> jsnum" where
  "orZero b = (case b of None \<Rightarrow> Num 0 | Some x \<Rightarrow> if falsy x then Num 0 else x)"

text \<open>
  The library functions the code calls, as parameters. \<open>JSON_parse\<close> is \<open>None\<close> where
  \<open>JSON.parse\<close> throws; \<open>JSON_stringify\<close> is \<open>JSON.stringify\<close> on the number array
  \<open>Array.from(secretKey)\<close>; \<open>Uint8Array_new v\<close> is \<open>new Uint8Array(v)\<close> on a parsed
  value (\<open>None\<close> where it throws); \<open>getPublicKey\<close> is the ed25519 derivation of a public
  key from a 32-byte seed; \<open>randomBytes n\<close> is what the \<open>n\<close>-th draw from the random
  source returns; \<open>toBase58\<close> is \<open>PublicKey.toString\<close> and \<open>PublicKey_new\<close> the
  \<open>PublicKey\<close> constructor on a string (\<open>None\<close> where it throws);
  \<open>Connection_new url\<close> says whether the \<open>Connection\<close> constructor accepts the
  endpoint.
\<close>

record 'j lib =
  JSON_parse :: "string \<Rightarrow> 'j option"
  JSON_stringify :: "byte list \<Rightarrow> string"
  Uint8Array_new :: "'j \<Rightarrow> byte list option"
  getPublicKey :: "byte list \<Rightarrow> byte list"
  randomBytes :: "nat \<Rightarrow> byte list"
  toBase58 :: "pubkey \<Rightarrow> string"
  PublicKey_new :: "string \<Rightarrow> pubkey option"
  Connection_new :: "string \<Rightarrow> bool"

text \<open>
  The network. \<open>connection n\<close> is what the RPC node answers once \<open>n\<close> SDK
  transactions have been submitted; the three SDK methods answer with a result object or
  throw. \<open>HELIUS_RPC_URL\<close> is the environment variable of that name. A token account
  of an answer is kept as its \<open>account.data.parsed.info.tokenAmount.uiAmount\<close>, a number
  or \<open>null\<close>.
\<close>

record tokenAccount =
  uiAmount :: "jsnum option"

record rpc =
  getParsedTokenAccountsByOwner :: "pubkey \<Rightarrow> pubkey \<Rightarrow> error + tokenAccount list"
  getBalance :: "pubkey \<Rightarrow> error + jsnum"

type_synonym connection = "nat \<Rightarrow> rpc"

record txResult =
  tx_success :: bool
  tx_error :: "string option"
  tx_signature :: "string option"

record net =
  HELIUS_RPC_URL :: "string option"
  connection :: connection
  sdk_buy :: "Keypair \<Rightarrow> pubkey \<Rightarrow> int \<Rightarrow> int \<Rightarrow> error + txResult"
  sdk_sell :: "Keypair \<Rightarrow> pubkey \<Rightarrow> int \<Rightarrow> int \<Rightarrow> error + txResult"
  sdk_createAndBuy ::
    "Keypair \<Rightarrow> Keypair \<Rightarrow> string \<Rightarrow> string \<Rightarrow> string \<Rightarrow> string option \<Rightarrow> int
       \<Rightarrow> error + txResult"

text \<open>
  What a command returns: \<open>{success: false, error}\<close> with the error text kept
  structured, or \<open>{success: true, ...}\<close> with its payload.
\<close>

datatype failure =
    CreatingKeysFolder error
  | InsufficientSol pubkey jsnum jsnum
  | NoTokensToSell pubkey string
  | SdkFailure "string option"
  | Message error

datatype 'a outcome = Failure failure | Success 'a

subsection \<open>Exceptions and state\<close>

type_synonym 'a io = "world \<Rightarrow> (error + 'a) \<times> world"

definition returnE :: "'a \<Rightarrow> 'a io" where
  "returnE x = (\<lambda>s. (Inr x, s))"

definition throwE :: "error \<Rightarrow> 'a io" where
  "throwE e = (\<lambda>s. (Inl e, s))"

definition liftE :: "error + 'a \<Rightarrow> 'a io" where
  "liftE r = (\<lambda>s. (r, s))"

definition bindE :: "'a io \<Rightarrow> ('a \<Rightarrow> 'b io) \<Rightarrow> 'b io" where
  "bindE m f = (\<lambda>s. case m s of (Inl e, s') \<Rightarrow> (Inl e, s') | (Inr x, s') \<Rightarrow> f x s')"

definition tryCatch :: "'a io \<Rightarrow> (error \<Rightarrow> 'a io) \<Rightarrow> 'a io" where
  "tryCatch m h = (\<lambda>s. case m s of (Inl e, s') \<Rightarrow> h e s' | (Inr x, s') \<Rightarrow> (Inr x, s'))"

fun mapE :: "('a \<Rightarrow> 'b io) \<Rightarrow> 'a list \<Rightarrow> 'b list io" where
  "mapE f [] = returnE []"
| "mapE f (x # xs) = bindE (f x) (\<lambda>y. bindE (mapE f xs) (\<lambda>ys. returnE (y # ys)))"

definition orThrow :: "error \<Rightarrow> 'a option \<Rightarrow> 'a io" where
  "orThrow e r = (case r of None \<Rightarrow> throwE e | Some x \<Rightarrow> returnE x)"

subsection \<open>Paths and the file system\<close>

text \<open>
  A path is the list of its components below the root. \<open>path.join(base, s)\<close> on an
  absolute, normalised \<open>base\<close> appends the components of \<open>s\<close>: empty components and
  \<open>.\<close> are dropped, \<open>..\<close> removes the last component (and is dropped at the root).
\<close>

fun splitSlash :: "string \<Rightarrow> string list" where
  "splitSlash [] = [[]]"
| "splitSlash (c # cs) =
     (if c = CHR ''/'' then [] # splitSlash cs
      else (case splitSlash cs of [] \<Rightarrow> [[c]] | w # ws \<Rightarrow> (c # w) # ws))"

definition joinStep :: "path \<Rightarrow> string \<Rightarrow> path" where
  "joinStep acc c =
     (if c = [] \<or> c = ''.'' then acc else if c = ''..'' then butlast acc else acc @ [c])"

definition path_join :: "path \<Rightarrow> string \<Rightarrow> path" where
  "path_join base s = foldl joinStep base (splitSlash s)"

definition lookup :: "world \<Rightarrow> path \<Rightarrow> node option" where
  "lookup s p = (if p = [] then Some Dir else map_of (nodes s) p)"

definition existsSync :: "world \<Rightarrow> path \<Rightarrow> bool" where
  "existsSync s p = (lookup s p \<noteq> None)"

definition isFile :: "node option \<Rightarrow> bool" where
  "isFile n = (case n of Some (File _) \<Rightarrow> True | _ \<Rightarrow> False)"

definition ancestors :: "path \<Rightarrow> path list" where
  "ancestors p = map (\<lambda>n. take n p) [1..<length p]"

text \<open>\<open>fs.mkdirSync(p, {recursive: true})\<close>: creates \<open>p\<close> and its missing parents.\<close>

definition mkdirSync :: "path \<Rightarrow> unit io" where
  "mkdirSync p = (\<lambda>s.
     case lookup s p of
       Some Dir \<Rightarrow> (Inr (), s)
     | Some (File _) \<Rightarrow> (Inl EEXIST, s)
     | None \<Rightarrow>
         if list_ex (\<lambda>q. isFile (lookup s q)) (ancestors p) then (Inl ENOTDIR, s)
         else (case write_error s of
                 Some e \<Rightarrow> (Inl e, s)
               | None \<Rightarrow>
                   (Inr (),
                    s\<lparr>nodes := nodes s @
                         map (\<lambda>q. (q, Dir))
                           (filter (\<lambda>q. lookup s q = None) (ancestors p @ [p]))\<rparr>)))"

definition readFileSync :: "path \<Rightarrow> string io" where
  "readFileSync p = (\<lambda>s.
     case lookup s p of
       None \<Rightarrow> (Inl ENOENT, s)
     | Some Dir \<Rightarrow> (Inl EISDIR, s)
     | Some (File text) \<Rightarrow> (Inr text, s))"

definition writeFileSync :: "path \<Rightarrow> string \<Rightarrow> unit io" where
  "writeFileSync p text = (\<lambda>s.
     if lookup s p = Some Dir then (Inl EISDIR, s)
     else if lookup s (butlast p) = None then (Inl ENOENT, s)
     else if lookup s (butlast p) \<noteq> Some Dir then (Inl ENOTDIR, s)
     else (case write_error s of
             Some e \<Rightarrow> (Inl e, s)
           | None \<Rightarrow> (Inr (), s\<lparr>nodes := AList.update p (File text) (nodes s)\<rparr>)))"

text \<open>\<open>fs.readdirSync(p)\<close>: the names directly under \<open>p\<close>, in enumeration order.\<close>

definition entriesOf :: "world \<Rightarrow> path \<Rightarrow> string list" where
  "entriesOf s p =
     map (\<lambda>(q, n). last q) (filter (\<lambda>(q, n). q \<noteq> [] \<and> butlast q = p) (nodes s))"

definition readdirSync :: "path \<Rightarrow> string list io" where
  "readdirSync p = (\<lambda>s.
     case lookup s p of
       None \<Rightarrow> (Inl ENOENT, s)
     | Some (File _) \<Rightarrow> (Inl ENOTDIR, s)
     | Some Dir \<Rightarrow> (Inr (entriesOf s p), s))"

subsection \<open>JavaScript strings\<close>

definition startsWith :: "string \<Rightarrow> string \<Rightarrow> bool" where
  "startsWith s p = (take (length p) s = p)"

definition endsWith :: "string \<Rightarrow> string \<Rightarrow> bool" where
  "endsWith s p = (length p \<le> length s \<and> drop (length s - length p) s = p)"

text \<open>\<open>s.replace(pat, rep)\<close> with a string pattern: the first occurrence only.\<close>

fun replaceFirst :: "string \<Rightarrow> string \<Rightarrow> string \<Rightarrow> string" where
  "replaceFirst pat rep [] = (if pat = [] then rep else [])"
| "replaceFirst pat rep (c # cs) =
     (if take (length pat) (c # cs) = pat then rep @ drop (length pat) (c # cs)
      else c # replaceFirst pat rep cs)"

subsection \<open>Key pairs (\<open>@solana/web3.js\<close>)\<close>

text \<open>
  \<open>Keypair.generate()\<close> draws a 32-byte seed and stores seed and public key as the
  64-byte secret key. \<open>Keypair.fromSecretKey(bytes)\<close> refuses a length other than 64 and
  a public half that is not the one derived from the seed half.
\<close>

definition Keypair_generate :: "'j lib \<Rightarrow> Keypair io" where
  "Keypair_generate L = (\<lambda>s.
     let seed = randomBytes L (drawn s); pk = getPublicKey L seed
     in (Inr \<lparr>publicKey = pk, secretKey = seed @ pk\<rparr>, s\<lparr>drawn := drawn s + 1\<rparr>))"

definition Keypair_fromSecretKey :: "'j lib \<Rightarrow> byte list \<Rightarrow> error + Keypair" where
  "Keypair_fromSecretKey L sk =
     (if length sk \<noteq> 64 then Inl BadSecretKeySize
      else if take 32 (getPublicKey L (take 32 sk)) \<noteq> drop 32 sk then Inl InvalidSecretKey
      else Inr \<lparr>publicKey = drop 32 sk, secretKey = sk\<rparr>)"

section \<open>utils.ts\<close>

text \<open>
  \<open>getOrCreateKeypair(keysFolder, name)\<close>: the \<open>catch\<close> logs and rethrows, so every
  failure of the body reaches the caller.
\<close>

definition getOrCreateKeypair :: "'j lib \<Rightarrow> path \<Rightarrow> string \<Rightarrow> Keypair io" where
  "getOrCreateKeypair L keysFolder name =
     (let keypairPath = path_join keysFolder (name @ ''.json'') in
      tryCatch
        (bindE (\<lambda>s. if \<not> existsSync s keysFolder then mkdirSync keysFolder s else (Inr (), s))
          (\<lambda>_ s.
             if existsSync s keypairPath then
               bindE (readFileSync keypairPath) (\<lambda>text.
               bindE (orThrow SyntaxError (JSON_parse L text)) (\<lambda>keypairData.
               bindE (orThrow RangeError (Uint8Array_new L keypairData)) (\<lambda>bytes.
               liftE (Keypair_fromSecretKey L bytes)))) s
             else
               bindE (Keypair_generate L) (\<lambda>keypair.
               bindE (writeFileSync keypairPath (JSON_stringify L (secretKey keypair))) (\<lambda>_.
               returnE keypair)) s))
        (\<lambda>error. throwE error))"

text \<open>
  \<open>getSPLBalance(connection, mint, owner)\<close>: the \<open>catch\<close> logs and returns
  \<open>null\<close>.
\<close>

definition getSPLBalance :: "connection \<Rightarrow> pubkey \<Rightarrow> pubkey \<Rightarrow> jsnum option io" where
  "getSPLBalance conn mint owner =
     tryCatch
       (bindE (\<lambda>s. (getParsedTokenAccountsByOwner (conn (length (sdk_log s))) owner mint, s))
         (\<lambda>tokenAccounts.
            if length tokenAccounts = 0 then returnE None
            else (let tokenAccount = tokenAccounts ! 0;
                      balance = uiAmount tokenAccount
                  in returnE balance)))
       (\<lambda>error. returnE None)"

section \<open>get-token-info.ts\<close>

text \<open>
  \<open>initializeSDK()\<close> throws when the endpoint variable is unset or empty; the
  \<open>Connection\<close> constructor refuses an endpoint it cannot use.
\<close>

definition initializeSDK :: "'j lib \<Rightarrow> net \<Rightarrow> unit io" where
  "initializeSDK L N =
     (case HELIUS_RPC_URL N of
        None \<Rightarrow> throwE MissingRpcUrl
      | Some rpcUrl \<Rightarrow>
          if rpcUrl = [] then throwE MissingRpcUrl
          else if \<not> Connection_new L rpcUrl then throwE InvalidEndpoint
          else returnE ())"

definition connection_getBalance :: "net \<Rightarrow> pubkey \<Rightarrow> jsnum io" where
  "connection_getBalance N pk = (\<lambda>s. (getBalance (connection N (length (sdk_log s))) pk, s))"

definition sdkCall :: "sdk_call \<Rightarrow> error + txResult \<Rightarrow> txResult io" where
  "sdkCall c r = (\<lambda>s. (r, s\<lparr>sdk_log := sdk_log s @ [c]\<rparr>))"

section \<open>list-accounts.ts\<close>

record account =
  account_name :: string
  account_publicKey :: string

datatype list_message = FolderCreated path | NoAccountsFound path | AccountsIn path

record listResult =
  list_success :: bool
  list_message :: "list_message option"
  list_error :: "failure option"
  accounts :: "account list"

text \<open>The callback of \<open>files.filter(...).map(...)\<close>: one entry per file, whatever happens.\<close>

definition accountOf :: "'j lib \<Rightarrow> path \<Rightarrow> string \<Rightarrow> account io" where
  "accountOf L keysFolder file =
     (let name = replaceFirst ''.json'' [] file in
      tryCatch
        (bindE (readFileSync (path_join keysFolder file)) (\<lambda>text.
         bindE (orThrow SyntaxError (JSON_parse L text)) (\<lambda>keypairData.
         bindE (orThrow RangeError (Uint8Array_new L keypairData)) (\<lambda>bytes.
         bindE (liftE (Keypair_fromSecretKey L bytes)) (\<lambda>keypair.
         returnE \<lparr>account_name = name, account_publicKey = toBase58 L (publicKey keypair)\<rparr>)))))
        (\<lambda>error. returnE \<lparr>account_name = name, account_publicKey = ''Error reading keypair''\<rparr>))"

definition listAccounts :: "'j lib \<Rightarrow> path \<Rightarrow> listResult io" where
  "listAccounts L rootDir =
     tryCatch
       (let keysFolder = rootDir @ [''.keys''] in
        (\<lambda>s.
           if \<not> existsSync s keysFolder then
             tryCatch
               (bindE (mkdirSync keysFolder) (\<lambda>_.
                returnE \<lparr>list_success = True, list_message = Some (FolderCreated keysFolder),
                         list_error = None, accounts = []\<rparr>))
               (\<lambda>mkdirError.
                returnE \<lparr>list_success = False, list_message = None,
                         list_error = Some (CreatingKeysFolder mkdirError), accounts = []\<rparr>) s
           else
             bindE (readdirSync keysFolder) (\<lambda>files.
             bindE (mapE (accountOf L keysFolder)
                      (filter (\<lambda>file. \<not> startsWith file ''mint-'' \<and> endsWith file ''.json'') files))
               (\<lambda>accounts.
                  if length accounts = 0 then
                    returnE \<lparr>list_success = True, list_message = Some (NoAccountsFound keysFolder),
                             list_error = None, accounts = []\<rparr>
                  else
                    returnE \<lparr>list_success = True, list_message = Some (AccountsIn keysFolder),
                             list_error = None, accounts = accounts\<rparr>)) s))
       (\<lambda>error.
          returnE \<lparr>list_success = False, list_message = None,
                   list_error = Some (Message error), accounts = []\<rparr>)"

section \<open>buy-token.ts\<close>

record buyPayload =
  buy_tokenAddress :: string
  amountSpent :: jsnum
  tokensPurchased :: jsnum
  newBalance :: jsnum
  buy_signature :: "string option"

text \<open>
  The folder check of the trading commands: \<open>Some r\<close> is the early \<open>return r\<close> of the
  inner \<open>catch\<close>.
\<close>

definition ensureKeysFolder :: "path \<Rightarrow> 'a outcome option io" where
  "ensureKeysFolder keysFolder = (\<lambda>s.
     if \<not> existsSync s keysFolder then
       tryCatch (bindE (mkdirSync keysFolder) (\<lambda>_. returnE None))
         (\<lambda>mkdirError. returnE (Some (Failure (CreatingKeysFolder mkdirError)))) s
     else (Inr None, s))"

definition buyToken ::
  "'j lib \<Rightarrow> net \<Rightarrow> path \<Rightarrow> string \<Rightarrow> jsnum \<Rightarrow> string \<Rightarrow> jsnum \<Rightarrow> buyPayload outcome io" where
  "buyToken L N rootDir tokenAddress buyAmount accountName slippageBasisPoints =
     tryCatch
       (bindE (initializeSDK L N) (\<lambda>_.
        let keysFolder = rootDir @ [''.keys''] in
        bindE (ensureKeysFolder keysFolder) (\<lambda>early.
        case early of
          Some r \<Rightarrow> returnE r
        | None \<Rightarrow>
            bindE (getOrCreateKeypair L keysFolder accountName) (\<lambda>account.
            bindE (connection_getBalance N (publicKey account)) (\<lambda>balance.
            let requiredBalance =
                  jadd (jmul buyAmount LAMPORTS_PER_SOL) (jmul (fl (1 / 1000)) LAMPORTS_PER_SOL) in
            if jlt balance requiredBalance then
              returnE (Failure (InsufficientSol (publicKey account)
                         (jdiv balance LAMPORTS_PER_SOL) (jdiv requiredBalance LAMPORTS_PER_SOL)))
            else
              bindE (orThrow InvalidPublicKeyInput (PublicKey_new L tokenAddress)) (\<lambda>mintPublicKey.
              bindE (getSPLBalance (connection N) mintPublicKey (publicKey account)) (\<lambda>b0.
              let initialTokenBalance = orZero b0 in
              bindE (liftE (BigInt (jmul buyAmount LAMPORTS_PER_SOL))) (\<lambda>amount.
              bindE (liftE (BigInt slippageBasisPoints)) (\<lambda>slippage.
              bindE (sdkCall (Buy account mintPublicKey amount slippage)
                       (sdk_buy N account mintPublicKey amount slippage)) (\<lambda>result.
              if \<not> tx_success result then returnE (Failure (SdkFailure (tx_error result)))
              else
                bindE (getSPLBalance (connection N) mintPublicKey (publicKey account)) (\<lambda>b1.
                let newTokenBalance = orZero b1;
                    tokensPurchased = jsub newTokenBalance initialTokenBalance
                in returnE (Success \<lparr>buy_tokenAddress = tokenAddress, amountSpent = buyAmount,
                                     tokensPurchased = tokensPurchased,
                                     newBalance = newTokenBalance,
                                     buy_signature = tx_signature result\<rparr>))))))))))))
       (\<lambda>error. returnE (Failure (Message error)))"

section \<open>sell-token.ts\<close>

record sellPayload =
  sell_tokenAddress :: string
  tokensSold :: jsnum
  solReceived :: jsnum
  newTokenBalance :: jsnum
  sell_signature :: "string option"

text \<open>
  \<open>!tokenBalance || tokenBalance === 0\<close> holds for \<open>null\<close>, for \<open>0\<close> and for NaN.
  \<open>Math.pow(10, 6)\<close> is \<open>1000000\<close>.
\<close>

definition sellToken ::
  "'j lib \<Rightarrow> net \<Rightarrow> path \<Rightarrow> string \<Rightarrow> jsnum \<Rightarrow> string \<Rightarrow> jsnum \<Rightarrow> sellPayload outcome io" where
  "sellToken L N rootDir tokenAddress sellAmount accountName slippageBasisPoints =
     tryCatch
       (bindE (initializeSDK L N) (\<lambda>_.
        let keysFolder = rootDir @ [''.keys''] in
        bindE (ensureKeysFolder keysFolder) (\<lambda>early.
        case early of
          Some r \<Rightarrow> returnE r
        | None \<Rightarrow>
            bindE (getOrCreateKeypair L keysFolder accountName) (\<lambda>account.
            bindE (orThrow InvalidPublicKeyInput (PublicKey_new L tokenAddress)) (\<lambda>mintPublicKey.
            bindE (getSPLBalance (connection N) mintPublicKey (publicKey account)) (\<lambda>tokenBalance.
            case tokenBalance of
              None \<Rightarrow> returnE (Failure (NoTokensToSell (publicKey account) tokenAddress))
            | Some balance \<Rightarrow>
                if falsy balance \<or> balance = Num 0 then
                  returnE (Failure (NoTokensToSell (publicKey account) tokenAddress))
                else
                  let amountToSell =
                        (if sellAmount = Num 0 then balance else Math_min sellAmount balance) in
                  bindE (connection_getBalance N (publicKey account)) (\<lambda>initialSolBalance.
                  bindE (liftE (BigInt (jmul amountToSell (Num 1000000)))) (\<lambda>amount.
                  bindE (liftE (BigInt slippageBasisPoints)) (\<lambda>slippage.
                  bindE (sdkCall (Sell account mintPublicKey amount slippage)
                           (sdk_sell N account mintPublicKey amount slippage)) (\<lambda>result.
                  if \<not> tx_success result then
                    returnE (Failure (SdkFailure (tx_error result)))
                  else
                    bindE (connection_getBalance N (publicKey account)) (\<lambda>newSolBalance.
                    let solReceived =
                          jdiv (jsub newSolBalance initialSolBalance) LAMPORTS_PER_SOL in
                    bindE (getSPLBalance (connection N) mintPublicKey (publicKey account)) (\<lambda>b1.
                    let newTokenBalance = orZero b1 in
                    returnE (Success \<lparr>sell_tokenAddress = tokenAddress,
                                      tokensSold = amountToSell,
                                      solReceived = solReceived,
                                      newTokenBalance = newTokenBalance,
                                      sell_signature = tx_signature result\<rparr>)))))))))))))
       (\<lambda>error. returnE (Failure (Message error)))"

section \<open>create-token.ts\<close>

record createPayload =
  create_tokenAddress :: string
  tokenName :: string
  tokenSymbol :: string
  tokenBalance :: "jsnum option"
  create_signature :: "string option"

text \<open>
  \<open>fs.readFileSync(imageUrl)\<close> on the path as given: the file system follows it
  component by component from the root or from the working directory, and every component
  is looked up in a directory that exists.
\<close>

fun followPath :: "world \<Rightarrow> path \<Rightarrow> string list \<Rightarrow> error + path" where
  "followPath s cur [] = Inr cur"
| "followPath s cur (c # cs) =
     (case lookup s cur of
        None \<Rightarrow> Inl ENOENT
      | Some (File _) \<Rightarrow> Inl ENOTDIR
      | Some Dir \<Rightarrow>
          if c = [] \<or> c = ''.'' then followPath s cur cs
          else if c = ''..'' then followPath s (butlast cur) cs
          else followPath s (cur @ [c]) cs)"

definition readFileSyncAt :: "path \<Rightarrow> string \<Rightarrow> string io" where
  "readFileSyncAt cwd p = (\<lambda>s.
     case followPath s (if startsWith p ''/'' then [] else cwd) (splitSlash p) of
       Inl e \<Rightarrow> (Inl e, s)
     | Inr q \<Rightarrow> readFileSync q s)"

definition createToken ::
  "'j lib \<Rightarrow> net \<Rightarrow> path \<Rightarrow> path \<Rightarrow> string \<Rightarrow> string \<Rightarrow> string \<Rightarrow> string option \<Rightarrow> jsnum \<Rightarrow> string
     \<Rightarrow> createPayload outcome io" where
  "createToken L N rootDir cwd name symbol description imageUrl initialBuyAmount accountName =
     tryCatch
       (bindE (initializeSDK L N) (\<lambda>_.
        let keysFolder = rootDir @ [''.keys''] in
        bindE (getOrCreateKeypair L keysFolder accountName) (\<lambda>account.
        bindE (connection_getBalance N (publicKey account)) (\<lambda>balance.
        let requiredBalance =
              jadd (jmul initialBuyAmount LAMPORTS_PER_SOL)
                (jmul (fl (3 / 1000)) LAMPORTS_PER_SOL) in
        if jlt balance requiredBalance then
          returnE (Failure (InsufficientSol (publicKey account)
                     (jdiv balance LAMPORTS_PER_SOL) (jdiv requiredBalance LAMPORTS_PER_SOL)))
        else
          bindE (Keypair_generate L) (\<lambda>mint.
          bindE (case imageUrl of
                   None \<Rightarrow> returnE None
                 | Some url \<Rightarrow>
                     if url = [] then returnE None
                     else bindE (readFileSyncAt cwd url) (\<lambda>imageData.
                          returnE (Some imageData))) (\<lambda>fileBlob.
          bindE (liftE (BigInt (jmul initialBuyAmount LAMPORTS_PER_SOL))) (\<lambda>amount.
          bindE (sdkCall (CreateAndBuy account mint name symbol description fileBlob amount)
                   (sdk_createAndBuy N account mint name symbol description fileBlob amount))
            (\<lambda>result.
          if \<not> tx_success result then returnE (Failure (SdkFailure (tx_error result)))
          else
            bindE (writeFileSync
                     (path_join keysFolder (''mint-'' @ toBase58 L (publicKey mint) @ ''.json''))
                     (JSON_stringify L (secretKey mint))) (\<lambda>_.
            bindE (getSPLBalance (connection N) (publicKey mint) (publicKey account)) (\<lambda>tokenBalance.
            returnE (Success \<lparr>create_tokenAddress = toBase58 L (publicKey mint),
                              tokenName = name, tokenSymbol = symbol,
                              tokenBalance = tokenBalance,
                              create_signature = tx_signature result\<rparr>)))))))))))
       (\<lambda>error. returnE (Failure (Message error)))"

section \<open>Notions the properties are stated with\<close>

text \<open>
  What the code makes of the text of a key file: \<open>JSON.parse\<close>, then
  \<open>new Uint8Array\<close>, then \<open>Keypair.fromSecretKey\<close>, each of which may throw.
\<close>

definition decodeKey :: "'j lib \<Rightarrow> string \<Rightarrow> error + Keypair" where
  "decodeKey L text =
     (case JSON_parse L text of
        None \<Rightarrow> Inl SyntaxError
      | Some v \<Rightarrow>
          (case Uint8Array_new L v of
             None \<Rightarrow> Inl RangeError
           | Some bytes \<Rightarrow> Keypair_fromSecretKey L bytes))"

definition keyAt :: "'j lib \<Rightarrow> world \<Rightarrow> path \<Rightarrow> error + Keypair" where
  "keyAt L s p =
     (case lookup s p of
        None \<Rightarrow> Inl ENOENT
      | Some Dir \<Rightarrow> Inl EISDIR
      | Some (File text) \<Rightarrow> decodeKey L text)"

text \<open>
  A valid secret key is 64 bytes, the second half being the public key of the first; a
  text decodes to a valid key when \<open>JSON.parse\<close> accepts it and
  \<open>new Uint8Array\<close> makes such a byte sequence of the parsed value (with the
  coercions of that constructor).
\<close>

definition validSecretKey :: "'j lib \<Rightarrow> byte list \<Rightarrow> bool" where
  "validSecretKey L bytes =
     (length bytes = 64 \<and> take 32 (getPublicKey L (take 32 bytes)) = drop 32 bytes)"

definition decodesToKey :: "'j lib \<Rightarrow> string \<Rightarrow> bool" where
  "decodesToKey L text =
     (case JSON_parse L text of
        None \<Rightarrow> False
      | Some v \<Rightarrow>
          (case Uint8Array_new L v of
             None \<Rightarrow> False
           | Some bytes \<Rightarrow> validSecretKey L bytes))"

text \<open>
  The specification's \<open>CorruptKeyFile\<close>: the errors that decoding a key file raises.
\<close>

definition CorruptKeyFile :: "error \<Rightarrow> bool" where
  "CorruptKeyFile e = (e \<in> {SyntaxError, RangeError, BadSecretKeySize, InvalidSecretKey})"


text \<open>The files of a directory; none when the path is missing or is not a directory.\<close>

definition filesIn :: "world \<Rightarrow> path \<Rightarrow> string list" where
  "filesIn s p = (case lookup s p of Some Dir \<Rightarrow> entriesOf s p | _ \<Rightarrow> [])"

text \<open>
  The entry the listing shows for a file of the keys folder: the decoded public key, or
  the placeholder when the file cannot be read as a key.
\<close>

definition entryOf :: "'j lib \<Rightarrow> world \<Rightarrow> path \<Rightarrow> string \<Rightarrow> account" where
  "entryOf L s keysFolder f =
     \<lparr>account_name = replaceFirst ''.json'' [] f,
      account_publicKey =
        (case keyAt L s (path_join keysFolder f) of
           Inr k \<Rightarrow> toBase58 L (publicKey k)
         | Inl e \<Rightarrow> ''Error reading keypair'')\<rparr>"

section \<open>A concrete library, network and worlds\<close>

text \<open>
  Stand-ins for the library parameters, used to run the definitions on concrete inputs:
  a key file holds an opening bracket and one character per byte, a public key is the
  seed with every byte incremented.
\<close>

definition encByte :: "byte \<Rightarrow> char" where
  "encByte b = char_of (unat b)"

definition decByte :: "char \<Rightarrow> byte" where
  "decByte c = of_nat (of_char c)"

definition demoLib :: "byte list lib" where
  "demoLib =
     \<lparr>JSON_parse = (\<lambda>t. case t of [] \<Rightarrow> None
                         | c # cs \<Rightarrow> if c = CHR ''['' then Some (map decByte cs) else None),
      JSON_stringify = (\<lambda>bs. CHR ''['' # map encByte bs),
      Uint8Array_new = Some,
      getPublicKey = map (\<lambda>b. b + 1),
      randomBytes = (\<lambda>n. replicate 32 (of_nat n)),
      toBase58 = map encByte,
      PublicKey_new = (\<lambda>t. if t = [] then None else Some (map decByte t)),
      Connection_new = (\<lambda>u. startsWith u ''http'')\<rparr>"



definition demoRpc :: "jsnum \<Rightarrow> tokenAccount list \<Rightarrow> rpc" where
  "demoRpc lamports accts =
     \<lparr>getParsedTokenAccountsByOwner = (\<lambda>owner mint. Inr accts),
      getBalance = (\<lambda>pk. Inr lamports)\<rparr>"


definition emptyWorld :: world where
  "emptyWorld = \<lparr>nodes = [], write_error = None, drawn = 0, sdk_log = []\<rparr>"

definition lockedWorld :: world where
  "lockedWorld =
     \<lparr>nodes = [([''app''], Dir)], write_error = Some EACCES, drawn = 0, sdk_log = []\<rparr>"

definition emptyKeysWorld :: world where
  "emptyKeysWorld =
     \<lparr>nodes = [([''app''], Dir), ([''app'', ''.keys''], Dir)],
      write_error = None, drawn = 0, sdk_log = []\<rparr>"

definition demoKey :: Keypair where
  "demoKey = \<lparr>publicKey = replicate 32 1, secretKey = replicate 32 0 @ replicate 32 1\<rparr>"

definition keysWorld :: world where
  "keysWorld =
     \<lparr>nodes = [([''app''], Dir), ([''app'', ''.keys''], Dir),
               ([''app'', ''.keys'', ''default.json''],
                  File (JSON_stringify demoLib (secretKey demoKey)))],
      write_error = None, drawn = 1, sdk_log = []\<rparr>"

definition otherKey :: Keypair where
  "otherKey = \<lparr>publicKey = replicate 32 2, secretKey = replicate 32 1 @ replicate 32 2\<rparr>"

definition twoKeysWorld :: world where
  "twoKeysWorld =
     \<lparr>nodes = [([''app''], Dir), ([''app'', ''.keys''], Dir),
               ([''app'', ''.keys'', ''default.json''],
                  File (JSON_stringify demoLib (secretKey demoKey))),
               ([''app'', ''.keys'', ''other.json''],
                  File (JSON_stringify demoLib (secretKey otherKey)))],
      write_error = None, drawn = 2, sdk_log = []\<rparr>"

definition mixedWorld :: world where
  "mixedWorld =
     \<lparr>nodes = [([''app''], Dir), ([''app'', ''.keys''], Dir),
               ([''app'', ''.keys'', ''broken.json''], File ''not json''),
               ([''app'', ''.keys'', ''mint-abc.json''],
                  File (JSON_stringify demoLib (secretKey demoKey))),
               ([''app'', ''.keys'', ''default.json''],
                  File (JSON_stringify demoLib (secretKey demoKey))),
               ([''app'', ''.keys'', ''notes.txt''], File ''hello'')],
      write_error = None, drawn = 1, sdk_log = []\<rparr>"

section \<open>Facts about the file system and the library stand-ins\<close>

lemma map_of_dirs:
  "map_of (map (\<lambda>q. (q, Dir)) qs) p = (if p \<in> set qs then Some Dir else None)"
  by (induction qs) auto

lemma mkdirSync_ok:
  assumes "mkdirSync p s = (Inr u, s')"
  shows "lookup s' p = Some Dir" and "drawn s' = drawn s" and "sdk_log s' = sdk_log s"
  using assms
  by (auto simp: mkdirSync_def lookup_def map_add_def map_of_dirs
           split: option.splits node.splits if_splits)

lemma mkdirSync_keeps:
  assumes "mkdirSync p s = (r, s')" and "lookup s q = Some n"
  shows "lookup s' q = Some n"
  using assms
  by (auto simp: mkdirSync_def lookup_def map_add_def
           split: option.splits node.splits if_splits)

lemma getOrCreateKeypair_existing:
  assumes "existsSync s dir" and "lookup s (path_join dir (name @ ''.json'')) = Some (File text)"
  shows "getOrCreateKeypair L dir name s = (decodeKey L text, s)"
  using assms
  by (auto simp: getOrCreateKeypair_def Let_def tryCatch_def bindE_def existsSync_def
        readFileSync_def orThrow_def throwE_def returnE_def liftE_def decodeKey_def
        split: option.splits sum.splits prod.splits)

lemma lookup_write:
  assumes "writeFileSync p text s = (Inr u, s')"
  shows "lookup s' q = (if q = p then Some (File text) else lookup s q)"
    and "drawn s' = drawn s" and "p \<noteq> []" and "sdk_log s' = sdk_log s"
  using assms
  by (auto simp: writeFileSync_def lookup_def update_conv' split: if_splits option.splits)

lemma writeFileSync_keeps:
  assumes "writeFileSync p body s = (r, s')" and "lookup s p = None" and "lookup s q = Some n"
  shows "lookup s' q = Some n"
  using assms
  by (auto simp: writeFileSync_def lookup_def update_conv' split: if_splits option.splits)

lemma fromSecretKey_generated:
  assumes "length seed = 32" and "length (getPublicKey L seed) = 32"
  shows "Keypair_fromSecretKey L (seed @ getPublicKey L seed) =
           Inr \<lparr>publicKey = getPublicKey L seed, secretKey = seed @ getPublicKey L seed\<rparr>"
  using assms by (simp add: Keypair_fromSecretKey_def)

lemma decByte_encByte: "decByte (encByte b) = b"
proof -
  have "unat b < 256" using unsigned_less[of b] by simp
  then show ?thesis by (simp add: decByte_def encByte_def of_char_of)
qed

lemma demo_roundtrip:
  "\<forall>bs. \<exists>v. JSON_parse demoLib (JSON_stringify demoLib bs) = Some v \<and>
             Uint8Array_new demoLib v = Some bs"
  by (simp add: demoLib_def decByte_encByte map_idI comp_def)

lemma demo_path_other:
  "path_join [''app'', ''.keys''] ''other.json'' = [''app'', ''.keys'', ''other.json'']"
  by (simp add: path_join_def joinStep_def)

lemma demo_path: "path_join [''app'', ''.keys''] ''default.json'' = [''app'', ''.keys'', ''default.json'']"
  by (simp add: path_join_def joinStep_def)

lemma demo_first:
  "getOrCreateKeypair demoLib [''app'', ''.keys''] ''default'' emptyWorld = (Inr demoKey, keysWorld)"
  by (simp add: getOrCreateKeypair_def Let_def tryCatch_def bindE_def existsSync_def
        lookup_def mkdirSync_def ancestors_def isFile_def writeFileSync_def
        Keypair_generate_def returnE_def throwE_def demo_path emptyWorld_def keysWorld_def
        demoKey_def demoLib_def)

lemma tryCatch_rethrow: "tryCatch m (\<lambda>error. throwE error) = m"
  by (auto simp: tryCatch_def throwE_def fun_eq_iff split: prod.splits sum.splits)


lemma demo_second:
  "getOrCreateKeypair demoLib [''app'', ''.keys''] ''other'' keysWorld = (Inr otherKey, twoKeysWorld)"
  by (simp add: getOrCreateKeypair_def Let_def tryCatch_def bindE_def existsSync_def
        lookup_def writeFileSync_def Keypair_generate_def returnE_def throwE_def
        demo_path_other keysWorld_def twoKeysWorld_def otherKey_def demoKey_def demoLib_def)

section \<open>The key store\<close>

text \<open>
  A first call for a name that has no file, in a folder that can be written, generates
  a key pair from the next random bytes and writes its file.
\<close>

lemma getOrCreateKeypair_creates:
  assumes dir: "existsSync s dir"
    and absent: "lookup s (path_join dir (name @ ''.json'')) = None"
    and parent: "lookup s (butlast (path_join dir (name @ ''.json''))) = Some Dir"
    and rw: "write_error s = None"
  shows "\<exists>s1. getOrCreateKeypair L dir name s =
                (Inr \<lparr>publicKey = getPublicKey L (randomBytes L (drawn s)),
                      secretKey = randomBytes L (drawn s) @ getPublicKey L (randomBytes L (drawn s))\<rparr>,
                 s1)
              \<and> drawn s1 = drawn s + 1
              \<and> lookup s1 (path_join dir (name @ ''.json'')) =
                  Some (File (JSON_stringify L
                     (randomBytes L (drawn s) @ getPublicKey L (randomBytes L (drawn s)))))"
proof -
  define p where "p = path_join dir (name @ ''.json'')"
  define kp where "kp = \<lparr>publicKey = getPublicKey L (randomBytes L (drawn s)),
                      secretKey = randomBytes L (drawn s) @ getPublicKey L (randomBytes L (drawn s))\<rparr>"
  define s' where "s' = s\<lparr>drawn := drawn s + 1\<rparr>"
  define s1 where "s1 = s'\<lparr>nodes := AList.update p (File (JSON_stringify L (secretKey kp))) (nodes s')\<rparr>"
  have look: "\<And>q. lookup s' q = lookup s q" by (simp add: lookup_def s'_def)
  have gen: "Keypair_generate L s = (Inr kp, s')"
    by (simp add: Keypair_generate_def Let_def kp_def s'_def)
  have wr: "writeFileSync p (JSON_stringify L (secretKey kp)) s' = (Inr (), s1)"
    using absent parent rw by (simp add: writeFileSync_def look p_def[symmetric] s1_def) (simp add: s'_def)
  have res: "getOrCreateKeypair L dir name s = (Inr kp, s1)"
    using dir absent
    unfolding getOrCreateKeypair_def Let_def tryCatch_rethrow p_def[symmetric]
    by (auto simp: bindE_def existsSync_def gen wr returnE_def)
  have "drawn s1 = drawn s + 1" by (simp add: s1_def s'_def)
  moreover have "lookup s1 p = Some (File (JSON_stringify L (secretKey kp)))"
    using lookup_write(1)[OF wr, of p] by simp
  ultimately show ?thesis using res unfolding p_def kp_def by auto
qed

lemma getOrCreateKeypair_keeps:
  assumes call: "getOrCreateKeypair L dir name s = (r, s')" and q: "lookup s q = Some n"
  shows "lookup s' q = Some n"
proof -
  define p where "p = path_join dir (name @ ''.json'')"
  obtain r0 s0 where e:
    "(if \<not> existsSync s dir then mkdirSync dir s else (Inr (), s)) = (r0, s0)"
    by (cases "(if \<not> existsSync s dir then mkdirSync dir s else (Inr (), s))")
  then have q0: "lookup s0 q = Some n"
    using mkdirSync_keeps q by (auto split: if_splits)
  show ?thesis
  proof (cases r0)
    case (Inl err)
    with call e q0 show ?thesis
      unfolding getOrCreateKeypair_def Let_def tryCatch_rethrow by (simp add: bindE_def)
  next
    case (Inr u)
    show ?thesis
    proof (cases "existsSync s0 p")
      case True
      with call e Inr have "s' = s0"
        unfolding getOrCreateKeypair_def Let_def tryCatch_rethrow p_def[symmetric]
        by (auto simp: bindE_def readFileSync_def orThrow_def throwE_def returnE_def liftE_def
              split: option.splits node.splits sum.splits)
      with q0 show ?thesis by simp
    next
      case False
      with call e Inr have
        "\<exists>body r1. writeFileSync p body (s0\<lparr>drawn := drawn s0 + 1\<rparr>) = (r1, s')"
        unfolding getOrCreateKeypair_def Let_def tryCatch_rethrow p_def[symmetric]
        by (auto simp: bindE_def Keypair_generate_def returnE_def Let_def
              split: prod.splits sum.splits)
      then obtain body r1 where
        w: "writeFileSync p body (s0\<lparr>drawn := drawn s0 + 1\<rparr>) = (r1, s')" by blast
      have "lookup (s0\<lparr>drawn := drawn s0 + 1\<rparr>) p = None"
        using False by (auto simp: existsSync_def lookup_def split: if_splits)
      moreover have "lookup (s0\<lparr>drawn := drawn s0 + 1\<rparr>) q = Some n"
        using q0 by (auto simp: lookup_def split: if_splits)
      ultimately show ?thesis using writeFileSync_keeps[OF w] by blast
    qed
  qed
qed

lemma getOrCreateKeypair_returns_file:
  assumes first: "getOrCreateKeypair L dir name s = (Inr k1, s1)"
    and json: "\<forall>bs. \<exists>v. JSON_parse L (JSON_stringify L bs) = Some v \<and>
                       Uint8Array_new L v = Some bs"
    and seed: "length (randomBytes L (drawn s)) = 32"
    and pub: "length (getPublicKey L (randomBytes L (drawn s))) = 32"
  shows "existsSync s1 dir
         \<and> (\<exists>body. lookup s1 (path_join dir (name @ ''.json'')) = Some (File body)
                   \<and> decodeKey L body = Inr k1)"
proof -
  define p where "p = path_join dir (name @ ''.json'')"
  define ensure where
    "ensure = (if \<not> existsSync s dir then mkdirSync dir s else (Inr (), s))"
  define rest where "rest = (\<lambda>s.
             if existsSync s p then
               bindE (readFileSync p) (\<lambda>text.
               bindE (orThrow SyntaxError (JSON_parse L text)) (\<lambda>keypairData.
               bindE (orThrow RangeError (Uint8Array_new L keypairData)) (\<lambda>bytes.
               liftE (Keypair_fromSecretKey L bytes)))) s
             else
               bindE (Keypair_generate L) (\<lambda>keypair.
               bindE (writeFileSync p (JSON_stringify L (secretKey keypair))) (\<lambda>_.
               returnE keypair)) s)"
  have unfold: "getOrCreateKeypair L dir name s =
      (case ensure of (Inl e, s') \<Rightarrow> (Inl e, s') | (Inr u, s') \<Rightarrow> rest s')"
    unfolding getOrCreateKeypair_def Let_def tryCatch_rethrow ensure_def rest_def p_def
    by (simp add: bindE_def)
  from first unfold obtain s' where ens: "ensure = (Inr (), s')" and rest: "rest s' = (Inr k1, s1)"
    by (auto split: prod.splits sum.splits)
  have dir': "existsSync s' dir" and drawn': "drawn s' = drawn s"
    using ens mkdirSync_ok(1,2)[of dir s "()" s']
    by (auto simp: ensure_def existsSync_def split: if_splits)
  show ?thesis
  proof (cases "existsSync s' p")
    case True
    with rest obtain body where isfile: "lookup s' p = Some (File body)" and s1: "s1 = s'"
      and dec: "decodeKey L body = Inr k1"
      by (auto simp: rest_def bindE_def readFileSync_def orThrow_def throwE_def returnE_def
            liftE_def decodeKey_def split: option.splits node.splits sum.splits)
    then show ?thesis using dir' by (auto simp: p_def)
  next
    case False
    define sd where "sd = randomBytes L (drawn s')"
    define kp where "kp = \<lparr>publicKey = getPublicKey L sd, secretKey = sd @ getPublicKey L sd\<rparr>"
    define written where "written = JSON_stringify L (secretKey kp)"
    from False rest have w: "writeFileSync p written (s'\<lparr>drawn := drawn s' + 1\<rparr>) = (Inr (), s1)"
      and k1: "k1 = kp"
      by (auto simp: rest_def bindE_def Keypair_generate_def Let_def returnE_def kp_def sd_def
            written_def split: prod.splits sum.splits)
    have look: "\<And>q. lookup s1 q = (if q = p then Some (File written) else lookup s' q)"
      using lookup_write(1)[OF w] by (simp add: lookup_def)
    have "dir \<noteq> p" using dir' False by auto
    then have e1: "existsSync s1 dir" using dir' by (simp add: existsSync_def look)
    have f1: "lookup s1 p = Some (File written)"
      by (simp add: look)
    from json obtain v where v: "JSON_parse L written = Some v"
        "Uint8Array_new L v = Some (secretKey kp)"
      unfolding written_def by blast
    have "decodeKey L written = Inr kp"
      using v fromSecretKey_generated[of sd L] seed pub
      by (simp add: decodeKey_def kp_def sd_def drawn')
    then show ?thesis using e1 f1 k1 by (auto simp: p_def)
  qed
qed

text \<open>
  Claim C1. For every folder and name:
  \<^item> a call for a name whose file exists in the folder returns what the file decodes to and
    leaves the world as it is, so it reads the file and generates nothing (no random bytes
    are drawn, nothing is written);
  \<^item> whenever a call returns a key pair, the file of the name then holds that key pair,
    and a second call with the same arguments returns the same key pair, hence the same
    public key, and changes nothing;
  \<^item> no later call, for whatever folder and name, changes that file, and after it a call
    with the first arguments still returns the same key pair.
  The hypotheses on the library say that
  \<open>new Uint8Array(JSON.parse(JSON.stringify(Array.from(b))))\<close> is \<open>b\<close> again, and that
  seeds and public keys are 32 bytes long.
\<close>

theorem getOrCreateKeypair_idempotent:
  assumes json: "\<forall>bs. \<exists>v. JSON_parse L (JSON_stringify L bs) = Some v \<and>
                       Uint8Array_new L v = Some bs"
    and seed: "length (randomBytes L (drawn s)) = 32"
    and pub: "length (getPublicKey L (randomBytes L (drawn s))) = 32"
  shows "(\<forall>body. existsSync s dir
              \<and> lookup s (path_join dir (name @ ''.json'')) = Some (File body) \<longrightarrow>
            getOrCreateKeypair L dir name s = (decodeKey L body, s))
       \<and> (\<forall>k1 s1. getOrCreateKeypair L dir name s = (Inr k1, s1) \<longrightarrow>
            (\<exists>body. lookup s1 (path_join dir (name @ ''.json'')) = Some (File body)
                    \<and> decodeKey L body = Inr k1)
            \<and> getOrCreateKeypair L dir name s1 = (Inr k1, s1)
            \<and> (\<forall>dir2 name2 r2 s2. getOrCreateKeypair L dir2 name2 s1 = (r2, s2) \<longrightarrow>
                  lookup s2 (path_join dir (name @ ''.json''))
                    = lookup s1 (path_join dir (name @ ''.json''))
                  \<and> getOrCreateKeypair L dir name s2 = (Inr k1, s2)))"
proof (intro conjI allI impI)
  fix body
  assume "existsSync s dir \<and> lookup s (path_join dir (name @ ''.json'')) = Some (File body)"
  then show "getOrCreateKeypair L dir name s = (decodeKey L body, s)"
    using getOrCreateKeypair_existing by blast
next
  fix k1 s1
  assume first: "getOrCreateKeypair L dir name s = (Inr k1, s1)"
  from getOrCreateKeypair_returns_file[OF first json seed pub]
  obtain body where d1: "existsSync s1 dir"
    and f1: "lookup s1 (path_join dir (name @ ''.json'')) = Some (File body)"
    and k1: "decodeKey L body = Inr k1"
    by blast
  show "\<exists>body. lookup s1 (path_join dir (name @ ''.json'')) = Some (File body)
               \<and> decodeKey L body = Inr k1"
    using f1 k1 by blast
  show "getOrCreateKeypair L dir name s1 = (Inr k1, s1)"
    using getOrCreateKeypair_existing[OF d1 f1, of L] k1 by simp
  fix dir2 name2 r2 s2
  assume other: "getOrCreateKeypair L dir2 name2 s1 = (r2, s2)"
  have f2: "lookup s2 (path_join dir (name @ ''.json'')) = Some (File body)"
    using getOrCreateKeypair_keeps[OF other f1] .
  then show "lookup s2 (path_join dir (name @ ''.json''))
               = lookup s1 (path_join dir (name @ ''.json''))"
    using f1 by simp
  from d1 obtain n where "lookup s1 dir = Some n" by (auto simp: existsSync_def)
  then have d2: "existsSync s2 dir"
    using getOrCreateKeypair_keeps[OF other] by (simp add: existsSync_def)
  show "getOrCreateKeypair L dir name s2 = (Inr k1, s2)"
    using getOrCreateKeypair_existing[OF d2 f2, of L] k1 by simp
qed

theorem getOrCreateKeypair_idempotent_witness:
  "getOrCreateKeypair demoLib [''app'', ''.keys''] ''default'' emptyWorld = (Inr demoKey, keysWorld)
   \<and> getOrCreateKeypair demoLib [''app'', ''.keys''] ''default'' keysWorld = (Inr demoKey, keysWorld)
   \<and> getOrCreateKeypair demoLib [''app'', ''.keys''] ''other'' keysWorld = (Inr otherKey, twoKeysWorld)
   \<and> publicKey otherKey \<noteq> publicKey demoKey
   \<and> getOrCreateKeypair demoLib [''app'', ''.keys''] ''default'' twoKeysWorld
       = (Inr demoKey, twoKeysWorld)"
proof -
  have sizes: "length (randomBytes demoLib (drawn emptyWorld)) = 32"
    "length (getPublicKey demoLib (randomBytes demoLib (drawn emptyWorld))) = 32"
    by (simp_all add: demoLib_def)
  note inst = getOrCreateKeypair_idempotent[OF demo_roundtrip sizes,
      of "[''app'', ''.keys'']" "''default''"]
  from inst demo_first have again:
    "getOrCreateKeypair demoLib [''app'', ''.keys''] ''default'' keysWorld = (Inr demoKey, keysWorld)"
    by blast
  from inst demo_first demo_second have third:
    "getOrCreateKeypair demoLib [''app'', ''.keys''] ''default'' twoKeysWorld
       = (Inr demoKey, twoKeysWorld)"
    by blast
  have ne: "publicKey otherKey \<noteq> publicKey demoKey"
    by (simp add: otherKey_def demoKey_def)
  from demo_first again demo_second ne third show ?thesis by simp
qed

section \<open>The balance resolver\<close>

text \<open>
  Claim C2. When the query answers, \<open>getSPLBalance\<close> returns \<open>null\<close> (\<open>None\<close>, which
  is not \<open>Some 0\<close>) for an empty answer, and otherwise the \<open>uiAmount\<close> of the first
  account of the answer; the other accounts are not looked at, so nothing is summed.
\<close>

theorem getSPLBalance_first_account:
  assumes "getParsedTokenAccountsByOwner (conn (length (sdk_log s))) owner mint = Inr tokenAccounts"
  shows "getSPLBalance conn mint owner s =
           (Inr (case tokenAccounts of [] \<Rightarrow> None | first # others \<Rightarrow> uiAmount first), s)"
  using assms
  by (simp add: getSPLBalance_def tryCatch_def bindE_def returnE_def Let_def split: list.splits)

theorem getSPLBalance_first_account_witness:
  "getSPLBalance (\<lambda>n. demoRpc (Num 0) []) [1] [2] emptyWorld = (Inr None, emptyWorld)
   \<and> getSPLBalance (\<lambda>n. demoRpc (Num 0) [\<lparr>uiAmount = Some (Num 5)\<rparr>, \<lparr>uiAmount = Some (Num 7)\<rparr>]) [1] [2] emptyWorld
       = (Inr (Some (Num 5)), emptyWorld)"
  using getSPLBalance_first_account[of "\<lambda>n. demoRpc (Num 0) []" emptyWorld "[2]" "[1]" "[]"]
    getSPLBalance_first_account[of "\<lambda>n. demoRpc (Num 0) [\<lparr>uiAmount = Some (Num 5)\<rparr>, \<lparr>uiAmount = Some (Num 7)\<rparr>]"
      emptyWorld "[2]" "[1]" "[\<lparr>uiAmount = Some (Num 5)\<rparr>, \<lparr>uiAmount = Some (Num 7)\<rparr>]"]
  by (simp add: demoRpc_def)

text \<open>
  Claim C3. When the query throws, \<open>getSPLBalance\<close> catches the error and returns
  \<open>null\<close>: the result is the one a connection with no matching account gives, so the
  return value does not tell the two apart.
\<close>

theorem getSPLBalance_query_failure:
  assumes "getParsedTokenAccountsByOwner (conn (length (sdk_log s))) owner mint = Inl e"
    and "getParsedTokenAccountsByOwner (conn' (length (sdk_log s))) owner mint = Inr []"
  shows "getSPLBalance conn mint owner s = (Inr None, s)
         \<and> getSPLBalance conn' mint owner s = getSPLBalance conn mint owner s"
  using assms
  by (simp add: getSPLBalance_def tryCatch_def bindE_def returnE_def)

theorem getSPLBalance_query_failure_witness:
  "getSPLBalance (\<lambda>n. \<lparr>getParsedTokenAccountsByOwner = (\<lambda>owner mint. Inl (RpcError ''timeout'')),
                        getBalance = (\<lambda>pk. Inr (Num 0))\<rparr>) [1] [2] emptyWorld = (Inr None, emptyWorld)
   \<and> getSPLBalance (\<lambda>n. demoRpc (Num 0) []) [1] [2] emptyWorld
       = getSPLBalance (\<lambda>n. \<lparr>getParsedTokenAccountsByOwner = (\<lambda>owner mint. Inl (RpcError ''timeout'')),
                              getBalance = (\<lambda>pk. Inr (Num 0))\<rparr>) [1] [2] emptyWorld"
  using getSPLBalance_query_failure[of
      "\<lambda>n. \<lparr>getParsedTokenAccountsByOwner = (\<lambda>owner mint. Inl (RpcError ''timeout'')),
             getBalance = (\<lambda>pk. Inr (Num 0))\<rparr>" emptyWorld "[2]" "[1]" "RpcError ''timeout''"
      "\<lambda>n. demoRpc (Num 0) []"]
  by (simp add: demoRpc_def)

lemma decodeKey_invalid:
  assumes "\<not> decodesToKey L body"
  shows "\<exists>e. decodeKey L body = Inl e \<and> CorruptKeyFile e"
  using assms
  by (auto simp: decodesToKey_def decodeKey_def validSecretKey_def Keypair_fromSecretKey_def
        CorruptKeyFile_def split: option.splits)

lemma decodeKey_valid:
  assumes "decodesToKey L body"
  shows "\<exists>k. decodeKey L body = Inr k"
  using assms
  by (auto simp: decodesToKey_def decodeKey_def validSecretKey_def Keypair_fromSecretKey_def
        split: option.splits)

section \<open>Corrupt key files\<close>

text \<open>
  Claim C7. When the file of a name holds a text that does not decode to a valid secret
  key (it is not JSON, it is no byte sequence, its length is not 64, or its public half
  does not belong to its seed half), \<open>getOrCreateKeypair\<close> on that name fails with one
  of the decoding errors, which are the specification's \<open>CorruptKeyFile\<close>; it returns no
  key pair, writes nothing and draws no random bytes.
\<close>

theorem getOrCreateKeypair_corrupt:
  assumes "existsSync s dir"
    and "lookup s (path_join dir (name @ ''.json'')) = Some (File body)"
    and "\<not> decodesToKey L body"
  shows "\<exists>e. getOrCreateKeypair L dir name s = (Inl e, s) \<and> CorruptKeyFile e"
  using getOrCreateKeypair_existing[OF assms(1,2), of L] decodeKey_invalid[OF assms(3)]
  by auto

lemma demo_path_broken:
  "path_join [''app'', ''.keys''] ''broken.json'' = [''app'', ''.keys'', ''broken.json'']"
  by (simp add: path_join_def joinStep_def)

theorem getOrCreateKeypair_corrupt_witness:
  "\<not> decodesToKey demoLib ''not json''
   \<and> (\<exists>e. getOrCreateKeypair demoLib [''app'', ''.keys''] ''broken'' mixedWorld = (Inl e, mixedWorld)
          \<and> CorruptKeyFile e)"
proof -
  have a: "existsSync mixedWorld [''app'', ''.keys'']"
    by (simp add: existsSync_def lookup_def mixedWorld_def)
  have b: "lookup mixedWorld (path_join [''app'', ''.keys''] (''broken'' @ ''.json''))
             = Some (File ''not json'')"
    by (simp add: demo_path_broken lookup_def mixedWorld_def)
  have c: "\<not> decodesToKey demoLib ''not json''"
    by (simp add: decodesToKey_def demoLib_def)
  from getOrCreateKeypair_corrupt[OF a b c] c show ?thesis by (rule conjI[rotated])
qed

section \<open>Listing the accounts\<close>

lemma accountOf_total:
  "accountOf L keysFolder f s =
     (Inr \<lparr>account_name = replaceFirst ''.json'' [] f,
           account_publicKey =
             (case keyAt L s (path_join keysFolder f) of
                Inr k \<Rightarrow> toBase58 L (publicKey k)
              | Inl e \<Rightarrow> ''Error reading keypair'')\<rparr>, s)"
  by (auto simp: accountOf_def Let_def tryCatch_def bindE_def readFileSync_def orThrow_def
        throwE_def returnE_def liftE_def keyAt_def decodeKey_def
        split: option.splits node.splits sum.splits)

lemma mapE_total:
  assumes "\<And>x s. f x s = (Inr (g s x), s)"
  shows "mapE f xs s = (Inr (map (g s) xs), s)"
  by (induction xs) (simp_all add: returnE_def bindE_def assms)

lemma listAccounts_dir:
  assumes "lookup s (rootDir @ [''.keys'']) = Some Dir"
  shows "listAccounts L rootDir s =
     (let kf = rootDir @ [''.keys''];
          cands = filter (\<lambda>f. \<not> startsWith f ''mint-'' \<and> endsWith f ''.json'') (entriesOf s kf)
      in (Inr \<lparr>list_success = True,
                list_message = Some (if cands = [] then NoAccountsFound kf else AccountsIn kf),
                list_error = None,
                accounts = map (entryOf L s kf) cands\<rparr>, s))"
  using assms
  by (simp add: listAccounts_def Let_def tryCatch_def bindE_def existsSync_def readdirSync_def
        returnE_def mapE_total[where g="\<lambda>s. entryOf L s (rootDir @ [''.keys''])" and f="accountOf L (rootDir @ [''.keys''])", OF accountOf_total[unfolded entryOf_def[symmetric]]])


lemma startsWith_prefix: "startsWith s p = prefix p s"
  by (auto simp: startsWith_def prefix_def) (metis append_take_drop_id)

lemma endsWith_suffix: "endsWith s p = suffix p s"
  by (auto simp: endsWith_def suffix_def) (metis append_take_drop_id)

lemma demo_entries:
  "entriesOf mixedWorld [''app'', ''.keys'']
     = [''broken.json'', ''mint-abc.json'', ''default.json'', ''notes.txt'']"
  by (simp add: entriesOf_def mixedWorld_def)

lemma demo_candidates:
  "filter (\<lambda>f. \<not> startsWith f ''mint-'' \<and> endsWith f ''.json'')
     [''broken.json'', ''mint-abc.json'', ''default.json'', ''notes.txt'']
   = [''broken.json'', ''default.json'']"
  by (simp add: startsWith_def endsWith_def)

lemma demo_key_text:
  "decodeKey demoLib (JSON_stringify demoLib (secretKey demoKey)) = Inr demoKey"
  by (simp add: decodeKey_def demoLib_def demoKey_def Keypair_fromSecretKey_def
        decByte_encByte comp_def)

lemma demo_entry_broken:
  "entryOf demoLib mixedWorld [''app'', ''.keys''] ''broken.json''
     = \<lparr>account_name = ''broken'', account_publicKey = ''Error reading keypair''\<rparr>"
  by (simp add: entryOf_def keyAt_def demo_path_broken lookup_def mixedWorld_def decodeKey_def
        demoLib_def)

lemma demo_entry_default:
  "entryOf demoLib mixedWorld [''app'', ''.keys''] ''default.json''
     = \<lparr>account_name = ''default'', account_publicKey = toBase58 demoLib (publicKey demoKey)\<rparr>"
  by (simp add: entryOf_def keyAt_def demo_path lookup_def mixedWorld_def demo_key_text)

text \<open>
  Claim C5. On an existing keys folder \<open>listAccounts\<close> succeeds and returns one entry
  per candidate file (a name that does not start with \<open>mint-\<close> and ends with
  \<open>.json\<close>), in the order of the directory: the entry of a file that decodes carries
  the decoded public key, the entry of any other carries the placeholder
  \<open>Error reading keypair\<close>. No decoding failure ends the listing.
\<close>

theorem listAccounts_partial_success:
  assumes "lookup s (rootDir @ [''.keys'']) = Some Dir"
  shows "\<exists>r. listAccounts L rootDir s = (Inr r, s) \<and> list_success r
             \<and> accounts r =
                 map (entryOf L s (rootDir @ [''.keys'']))
                   (filter (\<lambda>f. \<not> startsWith f ''mint-'' \<and> endsWith f ''.json'')
                      (entriesOf s (rootDir @ [''.keys''])))"
  by (simp add: listAccounts_dir[OF assms] Let_def)

theorem listAccounts_partial_success_witness:
  "lookup mixedWorld ([''app''] @ [''.keys'']) = Some Dir
   \<and> (\<exists>r. listAccounts demoLib [''app''] mixedWorld = (Inr r, mixedWorld) \<and> list_success r
          \<and> accounts r =
               [\<lparr>account_name = ''broken'', account_publicKey = ''Error reading keypair''\<rparr>,
                \<lparr>account_name = ''default'',
                  account_publicKey = toBase58 demoLib (publicKey demoKey)\<rparr>])"
proof -
  have d: "lookup mixedWorld ([''app''] @ [''.keys'']) = Some Dir"
    by (simp add: lookup_def mixedWorld_def)
  have c: "filter (\<lambda>f. \<not> startsWith f ''mint-'' \<and> endsWith f ''.json'')
             (entriesOf mixedWorld ([''app''] @ [''.keys'']))
           = [''broken.json'', ''default.json'']"
    using demo_candidates by (simp add: demo_entries)
  have m: "map (entryOf demoLib mixedWorld ([''app''] @ [''.keys'']))
             [''broken.json'', ''default.json'']
           = [\<lparr>account_name = ''broken'', account_publicKey = ''Error reading keypair''\<rparr>,
              \<lparr>account_name = ''default'',
                account_publicKey = toBase58 demoLib (publicKey demoKey)\<rparr>]"
    by (simp add: demo_entry_broken demo_entry_default)
  from listAccounts_partial_success[OF d, of demoLib, unfolded c m] d show ?thesis
    by (rule conjI[rotated])
qed

text \<open>
  Claim C4. Whatever the directory holds, the entries of the listing are, in order, those
  of the files whose name does not start with \<open>mint-\<close> and ends with \<open>.json\<close>:
  one entry for each of them and none for any other file. The entry's name is the file
  name without its first \<open>.json\<close>.
\<close>

theorem listAccounts_filter:
  "\<exists>r s'. listAccounts L rootDir s = (Inr r, s')
      \<and> map account_name (accounts r) =
          map (replaceFirst ''.json'' [])
            (filter (\<lambda>f. \<not> prefix ''mint-'' f \<and> suffix ''.json'' f)
               (filesIn s (rootDir @ [''.keys''])))"
proof (cases "lookup s (rootDir @ [''.keys''])")
  case None
  then show ?thesis
    by (auto simp: listAccounts_def Let_def tryCatch_def bindE_def existsSync_def returnE_def
          filesIn_def split: prod.splits sum.splits)
next
  case (Some n)
  show ?thesis
  proof (cases n)
    case Dir
    with Some have d: "lookup s (rootDir @ [''.keys'']) = Some Dir" by simp
    show ?thesis
      by (simp add: listAccounts_dir[OF d] Let_def filesIn_def d entryOf_def comp_def
            startsWith_prefix endsWith_suffix)
  next
    case (File body)
    with Some show ?thesis
      by (simp add: listAccounts_def Let_def tryCatch_def bindE_def existsSync_def returnE_def
          filesIn_def readdirSync_def)
  qed
qed

theorem listAccounts_filter_witness:
  "\<exists>r s'. listAccounts demoLib [''app''] mixedWorld = (Inr r, s')
      \<and> map account_name (accounts r) = [''broken'', ''default'']"
proof -
  have d: "lookup mixedWorld ([''app''] @ [''.keys'']) = Some Dir"
    by (simp add: lookup_def mixedWorld_def)
  have c: "filter (\<lambda>f. \<not> prefix ''mint-'' f \<and> suffix ''.json'' f)
             (filesIn mixedWorld ([''app''] @ [''.keys'']))
           = [''broken.json'', ''default.json'']"
    using demo_candidates d
    by (simp add: filesIn_def demo_entries startsWith_prefix endsWith_suffix)
  have m: "map (replaceFirst ''.json'' []) [''broken.json'', ''default.json'']
           = [''broken'', ''default'']"
    by simp
  from listAccounts_filter[of demoLib "[''app'']" mixedWorld, unfolded c m] show ?thesis .
qed

lemma demo_mkdir:
  "mkdirSync [''app'', ''.keys''] emptyWorld = (Inr (), emptyKeysWorld)"
  by (simp add: mkdirSync_def lookup_def ancestors_def isFile_def emptyWorld_def
        emptyKeysWorld_def)

lemma demo_mkdir_locked:
  "mkdirSync [''app'', ''.keys''] lockedWorld = (Inl EACCES, lockedWorld)"
  by (simp add: mkdirSync_def lookup_def ancestors_def isFile_def lockedWorld_def)

text \<open>
  Claim C6 says that on a missing keys folder \<open>listAccounts\<close> creates the folder and
  returns \<open>success = true\<close>. Where the folder cannot be created (here: no permission
  to write) the inner \<open>catch\<close> of the code returns \<open>success = false\<close> with the
  message \<open>Error creating keys folder\<close>.
\<close>

theorem listAccounts_mkdir_failure:
  "\<not> existsSync lockedWorld ([''app''] @ [''.keys''])
   \<and> listAccounts demoLib [''app''] lockedWorld =
       (Inr \<lparr>list_success = False, list_message = None,
             list_error = Some (CreatingKeysFolder EACCES), accounts = []\<rparr>, lockedWorld)"
  using demo_mkdir_locked
  by (simp add: listAccounts_def Let_def tryCatch_def bindE_def returnE_def existsSync_def
        lookup_def lockedWorld_def)

text \<open>
  Claim C6, amended. On a missing keys folder \<open>listAccounts\<close> does not raise: it tries
  to create the folder; when the creation succeeds it returns \<open>success = true\<close> with no
  accounts and the folder exists afterwards; when the creation fails it returns
  \<open>success = false\<close> with the creation error and no accounts. On an existing folder
  with no entries it returns \<open>success = true\<close> with no accounts.
\<close>

theorem listAccounts_missing_or_empty:
  "(\<not> existsSync s (rootDir @ [''.keys'']) \<and> mkdirSync (rootDir @ [''.keys'']) s = (Inr (), s') \<longrightarrow>
      listAccounts L rootDir s =
        (Inr \<lparr>list_success = True, list_message = Some (FolderCreated (rootDir @ [''.keys''])),
              list_error = None, accounts = []\<rparr>, s')
      \<and> lookup s' (rootDir @ [''.keys'']) = Some Dir)
   \<and> (\<not> existsSync s (rootDir @ [''.keys'']) \<and> mkdirSync (rootDir @ [''.keys'']) s = (Inl e, s') \<longrightarrow>
      listAccounts L rootDir s =
        (Inr \<lparr>list_success = False, list_message = None,
              list_error = Some (CreatingKeysFolder e), accounts = []\<rparr>, s'))
   \<and> (lookup s (rootDir @ [''.keys'']) = Some Dir \<and> entriesOf s (rootDir @ [''.keys'']) = [] \<longrightarrow>
      listAccounts L rootDir s =
        (Inr \<lparr>list_success = True, list_message = Some (NoAccountsFound (rootDir @ [''.keys''])),
              list_error = None, accounts = []\<rparr>, s))"
proof (intro conjI impI)
  assume a: "\<not> existsSync s (rootDir @ [''.keys'']) \<and> mkdirSync (rootDir @ [''.keys'']) s = (Inr (), s')"
  then show "listAccounts L rootDir s =
        (Inr \<lparr>list_success = True, list_message = Some (FolderCreated (rootDir @ [''.keys''])),
              list_error = None, accounts = []\<rparr>, s')"
    by (simp add: listAccounts_def Let_def tryCatch_def bindE_def returnE_def)
  from a show "lookup s' (rootDir @ [''.keys'']) = Some Dir"
    using mkdirSync_ok(1) by blast
next
  assume "\<not> existsSync s (rootDir @ [''.keys'']) \<and> mkdirSync (rootDir @ [''.keys'']) s = (Inl e, s')"
  then show "listAccounts L rootDir s =
        (Inr \<lparr>list_success = False, list_message = None,
              list_error = Some (CreatingKeysFolder e), accounts = []\<rparr>, s')"
    by (simp add: listAccounts_def Let_def tryCatch_def bindE_def returnE_def)
next
  assume "lookup s (rootDir @ [''.keys'']) = Some Dir \<and> entriesOf s (rootDir @ [''.keys'']) = []"
  then show "listAccounts L rootDir s =
        (Inr \<lparr>list_success = True, list_message = Some (NoAccountsFound (rootDir @ [''.keys''])),
              list_error = None, accounts = []\<rparr>, s)"
    by (simp add: listAccounts_dir Let_def)
qed

theorem listAccounts_missing_or_empty_witness:
  "listAccounts demoLib [''app''] emptyWorld =
     (Inr \<lparr>list_success = True, list_message = Some (FolderCreated [''app'', ''.keys'']),
           list_error = None, accounts = []\<rparr>, emptyKeysWorld)
   \<and> listAccounts demoLib [''app''] lockedWorld =
     (Inr \<lparr>list_success = False, list_message = None,
           list_error = Some (CreatingKeysFolder EACCES), accounts = []\<rparr>, lockedWorld)
   \<and> listAccounts demoLib [''app''] emptyKeysWorld =
     (Inr \<lparr>list_success = True, list_message = Some (NoAccountsFound [''app'', ''.keys'']),
           list_error = None, accounts = []\<rparr>, emptyKeysWorld)"
proof -
  have a: "\<not> existsSync emptyWorld [''app'', ''.keys'']"
    by (simp add: existsSync_def lookup_def emptyWorld_def)
  have b: "\<not> existsSync lockedWorld [''app'', ''.keys'']"
    by (simp add: existsSync_def lookup_def lockedWorld_def)
  have c: "lookup emptyKeysWorld [''app'', ''.keys''] = Some Dir"
    "entriesOf emptyKeysWorld [''app'', ''.keys''] = []"
    by (simp_all add: lookup_def entriesOf_def emptyKeysWorld_def)
  show ?thesis
    using listAccounts_missing_or_empty[of emptyWorld "[''app'']" emptyKeysWorld demoLib]
      listAccounts_missing_or_empty[of lockedWorld "[''app'']" lockedWorld demoLib EACCES]
      listAccounts_missing_or_empty[of emptyKeysWorld "[''app'']" _ demoLib]
      a b c demo_mkdir demo_mkdir_locked
    by simp
qed

section \<open>Which operations raise\<close>

text \<open>
  Claim C9 says that no local operation raises to its caller. \<open>getOrCreateKeypair\<close>
  does: its \<open>catch\<close> logs the error and throws it again. Here the keys folder is
  missing and cannot be created, and the error of \<open>mkdirSync\<close> reaches the caller.
\<close>

theorem getOrCreateKeypair_rethrows:
  "getOrCreateKeypair demoLib [''app'', ''.keys''] ''default'' lockedWorld
     = (Inl EACCES, lockedWorld)"
  using demo_mkdir_locked
  by (simp add: getOrCreateKeypair_def Let_def tryCatch_rethrow bindE_def existsSync_def
        lookup_def lockedWorld_def)

lemma tryCatch_returns:
  "\<exists>r s'. tryCatch m (\<lambda>error. returnE (h error)) s = (Inr r, s')"
  by (cases "m s") (auto simp: tryCatch_def returnE_def split: sum.splits)

text \<open>
  Claim C9, amended. \<open>getSPLBalance\<close> and \<open>listAccounts\<close> catch every failure and
  return \<open>null\<close> or a result object, so a call of them never raises.
  \<open>getOrCreateKeypair\<close> is the exception (it rethrows); the commands that call it,
  \<open>buyToken\<close>, \<open>sellToken\<close> and \<open>createToken\<close>, catch what it throws and return a
  result object, so they never raise either.
\<close>

theorem local_operations_never_raise:
  "(\<exists>r s'. getSPLBalance conn mint owner s = (Inr r, s'))
   \<and> (\<exists>r s'. listAccounts L rootDir s = (Inr r, s'))
   \<and> (\<exists>r s'. buyToken L N rootDir tokenAddress buyAmount accountName slippage s = (Inr r, s'))
   \<and> (\<exists>r s'. sellToken L N rootDir tokenAddress sellAmount accountName slippage s = (Inr r, s'))
   \<and> (\<exists>r s'. createToken L N rootDir cwd name symbol description imageUrl initialBuyAmount
                 accountName s = (Inr r, s'))"
  unfolding getSPLBalance_def listAccounts_def buyToken_def sellToken_def createToken_def
  by (intro conjI tryCatch_returns)

section \<open>The trading commands\<close>












lemma floor_rat_numeral [simp]:
  "\<lfloor>(numeral a :: rat) / numeral b\<rfloor> = numeral a div numeral b"
  using floor_divide_of_int_eq[of "numeral a" "numeral b", where ?'a = rat] by simp

lemmas fl_eval = fl_def ulpExp_def pow2_def roundEven_def Let_def LAMPORTS_PER_SOL_def






lemma fl_zero: "fl 0 = Num 0"
  by (simp add: fl_eval)

lemma sell_1001: "jmul (fl (1001 / 1000)) (Num 1000000) = Num (8598524526591999 / 8589934592)"
  by (simp add: fl_eval)















end
